theory Spec2Isabelle
  imports Complex_Main "HOL-Library.AList"
begin

section \<open>Python values and exceptions\<close>

text \<open>
  The exceptions the merge engine can raise, by Python class. The string carries the
  message or the offending key. \<open>ExternalError\<close> stands for whatever a collaborator
  (the language-model endpoint, the network) raises.
\<close>

datatype error =
    KeyError string
  | TypeError string
  | AttributeError string
  | ValueError string
  | ExternalError string

fun class_name :: "error \<Rightarrow> string" where
  "class_name (KeyError m) = ''KeyError''"
| "class_name (TypeError m) = ''TypeError''"
| "class_name (AttributeError m) = ''AttributeError''"
| "class_name (ValueError m) = ''ValueError''"
| "class_name (ExternalError m) = ''Exception''"

text \<open>
  \<open>str.lower()\<close> on ASCII text: the letters A to Z move to a to z, every other
  character stays. Names are modelled as ASCII strings.
\<close>

definition lower_char :: "char \<Rightarrow> char" where
  "lower_char c =
     (if (65::nat) \<le> of_char c \<and> of_char c \<le> (90::nat)
      then char_of (of_char c + (32::nat)) else c)"

definition lower :: "string \<Rightarrow> string" where
  "lower s = map lower_char s"

text \<open>\<open>str(n)\<close> for a non-negative integer, used by the f-string that names a new node.\<close>

fun str_nat :: "nat \<Rightarrow> string" where
  "str_nat n =
     (if n < 10 then [char_of (48 + n)]
      else str_nat (n div 10) @ [char_of (48 + n mod 10)])"

declare str_nat.simps [simp del]

section \<open>Data model\<close>

text \<open>
  \<open>EntityInfo\<close> (cerebras\_inference.py): fields \<open>name\<close>, \<open>type\<close>,
  \<open>description\<close> and \<open>external_ids\<close>; the last two are \<open>Optional\<close> and
  default to \<open>None\<close>. The fields \<open>type\<close>, \<open>description\<close> and
  \<open>external_ids\<close> carry the prefix \<open>e\<close> here, the node record below owns the
  plain names.
\<close>

record entity_info =
  name :: string
  etype :: string
  edescription :: "string option"
  eexternal_ids :: "(string \<times> string) list option"

text \<open>
  The \<open>properties\<close> dictionary of a node as \<open>create_node\<close> writes it. A dictionary
  is an association list in insertion order. \<open>description\<close> and \<open>external_ids\<close>
  hold whatever the entity carried, hence possibly \<open>None\<close>: \<open>create_node\<close> reads them
  with \<open>entity_info.get(key, default)\<close> from the entity's \<open>__dict__\<close>, where the
  key is always present and the default never applies. The constant entry
  \<open>"type": "string"\<close> next to \<open>properties\<close> is left out.
\<close>

record node =
  entity_type :: string
  primary_name :: string
  alternative_names :: "string list"
  external_ids :: "(string \<times> string) list option"
  description :: "string option"
  last_updated :: string
  creation_date :: string

record citation =
  title :: string
  authors :: "string list"
  journal :: string
  year :: "int option"

text \<open>
  An evidence item. A confidence is a float64 and is modelled by the rational number
  that float denotes; the merge engine does no arithmetic on confidences itself, it
  hands them to \<open>np.mean\<close>. The experimental context is opaque to the merge engine and
  kept as text.
\<close>

record evidence =
  paper_id :: string
  citation_metadata :: citation
  experimental_context :: string
  statistical_evidence :: "(string \<times> string) list"
  extracted_text :: string
  extraction_confidence :: rat
  last_verified :: string

record aggregated_metadata =
  total_papers :: nat
  earliest_evidence :: "int option"
  latest_evidence :: "int option"
  evidence_strength :: rat
  contradictory_evidence :: bool
  meta_last_updated :: "string option"

record edge =
  source_node :: string
  target_node :: string
  relationship_type :: string
  evidence_items :: "evidence list"
  aggregated :: aggregated_metadata
  edge_last_updated :: string

text \<open>
  The state of a \<open>KnowledgeGraphUpdater\<close>: \<open>self.graph["nodes"]\<close>,
  \<open>self.graph["edges"]\<close> and \<open>self.name_to_id_map\<close>, each a dictionary in
  insertion order.
\<close>

record kg =
  nodes :: "(string \<times> node) list"
  edges :: "(string \<times> edge) list"
  name_to_id_map :: "(string \<times> string) list"

section \<open>Updating a node\<close>

text \<open>
  \<open>update_node\<close> mutates the node's \<open>properties\<close> in place, statement by
  statement, so the state returned with an exception holds what was written before it.
  \<open>now\<close> is the reading of the clock.

  \<^item> \<open>self.graph["nodes"][node_id]\<close> raises \<open>KeyError\<close> for an unknown id;
  \<^item> the description is assigned when the incoming one is truthy and the stored one is
    falsy (\<open>None\<close> or empty) or shorter;
  \<^item> when the incoming \<open>external_ids\<close> is truthy, \<open>properties.get("external_ids", {})\<close>
    returns the stored value; on a stored \<open>None\<close> the call of \<open>.update\<close> raises
    \<open>AttributeError\<close>;
  \<^item> the incoming name is appended to \<open>alternative_names\<close> when it differs from the
    primary name and is not there yet;
  \<^item> \<open>last_updated\<close> is refreshed and the lowered name registered in the name map.
\<close>

definition update_description :: "entity_info \<Rightarrow> node \<Rightarrow> node" where
  "update_description entity_info properties =
     (case edescription entity_info of
        None \<Rightarrow> properties
      | Some d \<Rightarrow>
          if d = [] then properties
          else (case description properties of
                  None \<Rightarrow> properties\<lparr>description := Some d\<rparr>
                | Some old \<Rightarrow>
                    if old = [] \<or> length d > length old
                    then properties\<lparr>description := Some d\<rparr>
                    else properties))"

definition dict_update :: "('k \<times> 'v) list \<Rightarrow> ('k \<times> 'v) list \<Rightarrow> ('k \<times> 'v) list" where
  "dict_update existing incoming = fold (\<lambda>(k, v). AList.update k v) incoming existing"

definition update_alternative_names :: "entity_info \<Rightarrow> node \<Rightarrow> node" where
  "update_alternative_names entity_info properties =
     (if name entity_info \<noteq> primary_name properties
         \<and> \<not> List.member (alternative_names properties) (name entity_info)
      then properties\<lparr>alternative_names := alternative_names properties @ [name entity_info]\<rparr>
      else properties)"

definition update_node :: "string \<Rightarrow> string \<Rightarrow> entity_info \<Rightarrow> kg \<Rightarrow> (error + unit) \<times> kg" where
  "update_node now node_id entity_info st =
     (case map_of (nodes st) node_id of
        None \<Rightarrow> (Inl (KeyError node_id), st)
      | Some properties \<Rightarrow>
          let p1 = update_description entity_info properties;
              incoming = (case eexternal_ids entity_info of None \<Rightarrow> [] | Some ids \<Rightarrow> ids)
          in if incoming \<noteq> [] \<and> external_ids p1 = None
             then (Inl (AttributeError ''update''),
                   st\<lparr>nodes := AList.update node_id p1 (nodes st)\<rparr>)
             else
               let p2 = (if incoming \<noteq> []
                         then p1\<lparr>external_ids :=
                                Some (dict_update (the (external_ids p1)) incoming)\<rparr>
                         else p1);
                   p3 = update_alternative_names entity_info p2;
                   p4 = p3\<lparr>last_updated := now\<rparr>
               in (Inr (),
                   st\<lparr>nodes := AList.update node_id p4 (nodes st),
                      name_to_id_map :=
                        AList.update (lower (name entity_info)) node_id (name_to_id_map st)\<rparr>))"

section \<open>String similarity\<close>

text \<open>
  \<open>difflib.SequenceMatcher(None, a, b).ratio()\<close> of the Python standard library, for
  a second sequence of fewer than 200 elements (below that length the automatic junk
  heuristic is off, and no junk predicate is given). \<open>find_longest_match\<close> returns
  the longest common block, the one starting earliest in \<open>a\<close> and, among those, earliest
  in \<open>b\<close>; \<open>matches\<close> adds up the sizes of the matching blocks found by recursing on
  the pieces to the left and to the right of that block; the ratio is \<open>2.0 * M / T\<close>
  with \<open>T\<close> the total length, and \<open>1.0\<close> when both sequences are empty.

  The ratio is an exact rational here. The program compares it with the threshold
  \<open>0.5\<close> in float64; since \<open>2.0 * M / T\<close> is one correctly rounded division and
  \<open>0.5\<close> is a float, the comparison has the same outcome on the exact values.
\<close>

fun common_prefix :: "'a list \<Rightarrow> 'a list \<Rightarrow> nat" where
  "common_prefix (x # xs) (y # ys) = (if x = y then Suc (common_prefix xs ys) else 0)"
| "common_prefix xs ys = 0"

definition better :: "'a list \<Rightarrow> 'a list \<Rightarrow> nat \<Rightarrow> nat \<Rightarrow> nat \<times> nat \<times> nat \<Rightarrow> nat \<times> nat \<times> nat" where
  "better a b i j best =
     (let k = common_prefix (drop i a) (drop j b)
      in if k > snd (snd best) then (i, j, k) else best)"

definition find_longest_match :: "'a list \<Rightarrow> 'a list \<Rightarrow> nat \<times> nat \<times> nat" where
  "find_longest_match a b =
     fold (\<lambda>i. fold (better a b i) [0..<length b]) [0..<length a] (0, 0, 0)"

lemma better_bound:
  "i < length a \<Longrightarrow> snd (snd best) = 0 \<or> fst best < length a \<Longrightarrow>
   snd (snd (better a b i j best)) = 0 \<or> fst (better a b i j best) < length a"
  by (simp add: better_def Let_def)

lemma fold_better_bound:
  "i < length a \<Longrightarrow> snd (snd best) = 0 \<or> fst best < length a \<Longrightarrow>
   snd (snd (fold (better a b i) js best)) = 0 \<or> fst (fold (better a b i) js best) < length a"
proof (induction js arbitrary: best)
  case Nil
  then show ?case by simp
next
  case (Cons j js)
  from better_bound [OF Cons.prems(1) Cons.prems(2)]
  have "snd (snd (better a b i j best)) = 0 \<or> fst (better a b i j best) < length a" .
  from Cons.IH [OF Cons.prems(1) this] show ?case by simp
qed

lemma fold_rows_bound:
  "list_all (\<lambda>i. i < length a) is \<Longrightarrow> snd (snd best) = 0 \<or> fst best < length a \<Longrightarrow>
   snd (snd (fold (\<lambda>i. fold (better a b i) js) is best)) = 0
   \<or> fst (fold (\<lambda>i. fold (better a b i) js) is best) < length a"
proof (induction "is" arbitrary: best)
  case Nil
  then show ?case by simp
next
  case (Cons i "is")
  from Cons.prems(1) have i: "i < length a" and rest: "list_all (\<lambda>i. i < length a) is"
    by simp_all
  from fold_better_bound [OF i Cons.prems(2)]
  have "snd (snd (fold (better a b i) js best)) = 0
        \<or> fst (fold (better a b i) js best) < length a" .
  from Cons.IH [OF rest this] show ?case by simp
qed

lemma find_longest_match_bound:
  "find_longest_match a b = (i, j, k) \<Longrightarrow> k \<noteq> 0 \<Longrightarrow> i < length a"
proof -
  assume eq: "find_longest_match a b = (i, j, k)" and k: "k \<noteq> 0"
  have "list_all (\<lambda>i. i < length a) [0..<length a]"
    by (simp add: list_all_iff)
  from fold_rows_bound [OF this, of "(0, 0, 0)" b "[0..<length b]"]
  have "snd (snd (find_longest_match a b)) = 0 \<or> fst (find_longest_match a b) < length a"
    by (simp add: find_longest_match_def)
  with eq k show ?thesis by simp
qed

function matches :: "'a list \<Rightarrow> 'a list \<Rightarrow> nat" where
  "matches a b =
     (case find_longest_match a b of
        (i, j, k) \<Rightarrow>
          if k = 0 then 0
          else k + matches (take i a) (take j b) + matches (drop (i + k) a) (drop (j + k) b))"
  by pat_completeness auto
termination
proof (relation "measure (\<lambda>(a, b). length a)")
  show "wf (measure (\<lambda>(a, b). length a))" by simp
next
  fix a b :: "'a list" and i y j k
  assume "(i, y) = find_longest_match a b" "(j, k) = y" "k \<noteq> 0"
  then have "find_longest_match a b = (i, j, k)" by simp
  from find_longest_match_bound [OF this \<open>k \<noteq> 0\<close>]
  show "((take i a, take j b), (a, b)) \<in> measure (\<lambda>(a, b). length a)" by simp
next
  fix a b :: "'a list" and i y j k
  assume "(i, y) = find_longest_match a b" "(j, k) = y" "k \<noteq> 0"
  then have "find_longest_match a b = (i, j, k)" by simp
  from find_longest_match_bound [OF this \<open>k \<noteq> 0\<close>] \<open>k \<noteq> 0\<close>
  show "((drop (i + k) a, drop (j + k) b), (a, b)) \<in> measure (\<lambda>(a, b). length a)" by simp
qed

declare matches.simps [simp del]

definition ratio :: "'a list \<Rightarrow> 'a list \<Rightarrow> rat" where
  "ratio a b =
     (if length a + length b = 0 then 1
      else of_nat (2 * matches a b) / of_nat (length a + length b))"

lemma ratio_examples:
  "ratio ''brca2'' ''brca1'' = 4 / 5" "ratio ''ab'' ''ac'' = 1 / 2" "ratio ''abcd'' ''axyz'' = 1 / 4"
  by code_simp+

section \<open>The disambiguation capability\<close>

text \<open>
  \<open>CerebrasInference.disambiguate_entity(new_entity, candidate_entities)\<close>. Its
  candidates are Python values: the body subscripts each of them with
  \<open>candidate['entity_id']\<close>, \<open>candidate['name']\<close>, \<open>candidate['type']\<close> and calls
  \<open>candidate.get\<close> on it, all inside the arguments of \<open>prompt.format\<close>, which are
  evaluated before the format call. Subscripting a \<open>str\<close> with a \<open>str\<close> raises
  \<open>TypeError\<close>; a dictionary without the key raises \<open>KeyError\<close>.
\<close>

datatype pyval = PNone | PStr string | PDict "(string \<times> pyval) list"

fun subscript :: "pyval \<Rightarrow> string \<Rightarrow> error + pyval" where
  "subscript (PDict d) k = (case map_of d k of None \<Rightarrow> Inl (KeyError k) | Some v \<Rightarrow> Inr v)"
| "subscript (PStr s) k = Inl (TypeError ''string indices must be integers'')"
| "subscript PNone k = Inl (TypeError ''NoneType object is not subscriptable'')"

fun get_default :: "pyval \<Rightarrow> string \<Rightarrow> pyval \<Rightarrow> error + pyval" where
  "get_default (PDict d) k dflt = (case map_of d k of None \<Rightarrow> Inr dflt | Some v \<Rightarrow> Inr v)"
| "get_default (PStr s) k dflt = Inl (AttributeError ''get'')"
| "get_default PNone k dflt = Inl (AttributeError ''get'')"

text \<open>The dictionary built for one candidate inside the list comprehension.\<close>

definition candidate_view :: "pyval \<Rightarrow> error + (string \<times> pyval) list" where
  "candidate_view candidate =
     (case subscript candidate ''entity_id'' of Inl e \<Rightarrow> Inl e | Inr i \<Rightarrow>
      case subscript candidate ''name'' of Inl e \<Rightarrow> Inl e | Inr n \<Rightarrow>
      case subscript candidate ''type'' of Inl e \<Rightarrow> Inl e | Inr t \<Rightarrow>
      case get_default candidate ''description'' (PStr []) of Inl e \<Rightarrow> Inl e | Inr d \<Rightarrow>
      case get_default candidate ''external_ids'' (PDict []) of Inl e \<Rightarrow> Inl e | Inr x \<Rightarrow>
        Inr [(''entity_id'', i), (''name'', n), (''type'', t),
             (''description'', d), (''external_ids'', x)])"

fun candidate_views :: "pyval list \<Rightarrow> error + (string \<times> pyval) list list" where
  "candidate_views [] = Inr []"
| "candidate_views (c # cs) =
     (case candidate_view c of
        Inl e \<Rightarrow> Inl e
      | Inr v \<Rightarrow> (case candidate_views cs of Inl e \<Rightarrow> Inl e | Inr vs \<Rightarrow> Inr (v # vs)))"

text \<open>
  What lies outside the repository is a parameter: \<open>format_prompt\<close> is the call
  \<open>prompt.format(new_entity=..., candidate_entities=...)\<close> on the evaluated
  arguments, \<open>chat_completion\<close> the round trip to the language model (with its
  logging), \<open>json_loads\<close> the parse of the reply (\<open>None\<close> for \<open>JSONDecodeError\<close>;
  a reply that parses is taken to be an object with string values), and \<open>extraction\<close>
  the extraction capability \<open>CerebrasInference.process_abstract\<close> as seen by the
  updater.
\<close>

record entity_relation =
  source_entity :: entity_info
  target_entity :: entity_info
  rel_type :: string
  rel_context :: string
  supporting_text :: string
  confidence :: rat

record abstract_info =
  pmid :: string
  a_title :: string
  abstract_text :: string
  a_authors :: "string list"
  a_journal :: string
  a_year :: "int option"

record llm =
  format_prompt :: "entity_info \<Rightarrow> (string \<times> pyval) list list \<Rightarrow> error + string"
  chat_completion :: "string \<Rightarrow> error + string"
  json_loads :: "string \<Rightarrow> (string \<times> string) list option"
  extraction :: "abstract_info \<Rightarrow> error + entity_relation list"

definition disambiguate_entity :: "llm \<Rightarrow> entity_info \<Rightarrow> pyval list \<Rightarrow> error + string option" where
  "disambiguate_entity model new_entity candidate_entities =
     (case candidate_views candidate_entities of
        Inl e \<Rightarrow> Inl e
      | Inr views \<Rightarrow>
     (case format_prompt model new_entity views of
        Inl e \<Rightarrow> Inl e
      | Inr content \<Rightarrow>
     (case chat_completion model content of
        Inl e \<Rightarrow> Inl e
      | Inr response_content \<Rightarrow>
     (case json_loads model response_content of
        None \<Rightarrow> Inr None
      | Some result \<Rightarrow>
     (case map_of result ''match'' of
        None \<Rightarrow> Inr None
      | Some m \<Rightarrow> if m \<noteq> [] \<and> m \<noteq> ''No Match'' then Inr (Some m) else Inr None)))))"

section \<open>Entity resolution\<close>

text \<open>
  \<open>find_matching_entity(entity, threshold = 0.5)\<close>. The exact stage looks the lowered
  name up in the name map and reads the node (\<open>KeyError\<close> if the map names a node
  that is not there); a hit of the same type is returned, a hit of another type falls
  through. The fuzzy stage walks the nodes in dictionary order, skips those of another
  type, and appends an id once, at the first known name whose ratio reaches the
  threshold. A non-empty candidate list, a list of node ids (strings), is handed to
  \<open>disambiguate_entity\<close>, and a truthy answer is returned.
\<close>

definition known_names :: "node \<Rightarrow> string list" where
  "known_names node_data =
     lower (primary_name node_data) # map lower (alternative_names node_data)"

definition is_candidate :: "rat \<Rightarrow> entity_info \<Rightarrow> node \<Rightarrow> bool" where
  "is_candidate threshold entity node_data =
     (entity_type node_data = etype entity
      \<and> list_ex (\<lambda>known_name. ratio (lower (name entity)) known_name \<ge> threshold)
           (known_names node_data))"

definition candidate_entities :: "rat \<Rightarrow> entity_info \<Rightarrow> (string \<times> node) list \<Rightarrow> string list" where
  "candidate_entities threshold entity ns =
     map fst (filter (\<lambda>(node_id, node_data). is_candidate threshold entity node_data) ns)"

definition fuzzy_match :: "llm \<Rightarrow> entity_info \<Rightarrow> rat \<Rightarrow> kg \<Rightarrow> error + string option" where
  "fuzzy_match model entity threshold st =
     (let cands = candidate_entities threshold entity (nodes st)
      in if cands \<noteq> []
         then (case disambiguate_entity model entity (map PStr cands) of
                 Inl e \<Rightarrow> Inl e
               | Inr None \<Rightarrow> Inr None
               | Inr (Some match_id) \<Rightarrow> Inr (Some match_id))
         else Inr None)"

definition find_matching_entity :: "llm \<Rightarrow> entity_info \<Rightarrow> rat \<Rightarrow> kg \<Rightarrow> error + string option" where
  "find_matching_entity model entity threshold st =
     (case map_of (name_to_id_map st) (lower (name entity)) of
        None \<Rightarrow> fuzzy_match model entity threshold st
      | Some node_id \<Rightarrow>
          (case map_of (nodes st) node_id of
             None \<Rightarrow> Inl (KeyError node_id)
           | Some node_data \<Rightarrow>
               if entity_type node_data = etype entity then Inr (Some node_id)
               else fuzzy_match model entity threshold st))"

text \<open>
  \<open>create_node\<close>: one more resolution, and a truthy hit is returned instead of a new
  node; otherwise the node \<open>node_<number of nodes>\<close> is written and its lowered name
  registered.
\<close>

definition truthy_id :: "string option \<Rightarrow> bool" where
  "truthy_id r = (case r of None \<Rightarrow> False | Some i \<Rightarrow> i \<noteq> [])"

definition create_node :: "llm \<Rightarrow> string \<Rightarrow> entity_info \<Rightarrow> kg \<Rightarrow> (error + string) \<times> kg" where
  "create_node model now entity_info st =
     (case find_matching_entity model entity_info (1 / 2) st of
        Inl e \<Rightarrow> (Inl e, st)
      | Inr r \<Rightarrow>
          if truthy_id r then (Inr (the r), st)
          else
            let node_id = ''node_'' @ str_nat (length (nodes st))
            in (Inr node_id,
                st\<lparr>nodes := AList.update node_id
                       \<lparr>entity_type = etype entity_info,
                        primary_name = name entity_info,
                        alternative_names = [],
                        external_ids = eexternal_ids entity_info,
                        description = edescription entity_info,
                        last_updated = now,
                        creation_date = now\<rparr> (nodes st),
                   name_to_id_map :=
                     AList.update (lower (name entity_info)) node_id (name_to_id_map st)\<rparr>))"

section \<open>Edge upsert and aggregation\<close>

text \<open>
  The dictionary \<open>relation_info\<close> that \<open>process_abstract\<close> passes to
  \<open>create_update_edge\<close>; it never has the key \<open>statistical_evidence\<close>, so the
  evidence item gets the default \<open>{}\<close>.
\<close>

record relation_info =
  ri_relationship_type :: string
  ri_paper_id :: string
  ri_citation_metadata :: citation
  ri_experimental_context :: string
  ri_extracted_text :: string
  ri_confidence :: rat

definition is_duplicate_evidence :: "evidence list \<Rightarrow> evidence \<Rightarrow> bool" where
  "is_duplicate_evidence existing_evidences new_evidence =
     list_ex (\<lambda>ev. paper_id ev = paper_id new_evidence) existing_evidences"

text \<open>
  \<open>_update_edge_metadata\<close>. The comprehension keeps the years that are truthy: not
  \<open>None\<close> and not \<open>0\<close>. \<open>min\<close> and \<open>max\<close> run on a non-empty list only.
  \<open>np.mean\<close> belongs to NumPy, not to the repository, and computes in float64: it
  is the parameter \<open>np_mean\<close>, applied to the confidences of the whole evidence list
  (\<open>float(...)\<close> of its float64 result is that same number).
\<close>

definition known_years :: "evidence list \<Rightarrow> int list" where
  "known_years evidences =
     concat (map (\<lambda>e. case year (citation_metadata e) of
                          None \<Rightarrow> []
                        | Some y \<Rightarrow> if y \<noteq> 0 then [y] else []) evidences)"

fun py_min :: "int list \<Rightarrow> int option" where
  "py_min [] = None"
| "py_min (y # ys) = Some (fold min ys y)"

fun py_max :: "int list \<Rightarrow> int option" where
  "py_max [] = None"
| "py_max (y # ys) = Some (fold max ys y)"

definition update_edge_metadata :: "(rat list \<Rightarrow> rat) \<Rightarrow> string \<Rightarrow> edge \<Rightarrow> edge" where
  "update_edge_metadata np_mean now e =
     (let evidences = evidence_items e; years = known_years evidences
      in e\<lparr>aggregated := (aggregated e)
             \<lparr>total_papers := length evidences,
              earliest_evidence := py_min years,
              latest_evidence := py_max years,
              evidence_strength := np_mean (map extraction_confidence evidences),
              meta_last_updated := Some now\<rparr>\<rparr>)"

definition edge_key_of :: "string \<Rightarrow> string \<Rightarrow> string \<Rightarrow> string" where
  "edge_key_of source_id target_id rtype = source_id @ ''_'' @ target_id @ ''_'' @ rtype"

definition new_edge :: "string \<Rightarrow> string \<Rightarrow> string \<Rightarrow> string \<Rightarrow> edge" where
  "new_edge now source_id target_id rtype =
     \<lparr>source_node = source_id, target_node = target_id, relationship_type = rtype,
      evidence_items = [],
      aggregated = \<lparr>total_papers = 0, earliest_evidence = None, latest_evidence = None,
                    evidence_strength = 0, contradictory_evidence = False,
                    meta_last_updated = None\<rparr>,
      edge_last_updated = now\<rparr>"

definition make_evidence :: "string \<Rightarrow> relation_info \<Rightarrow> evidence" where
  "make_evidence now ri =
     \<lparr>paper_id = ri_paper_id ri,
      citation_metadata = ri_citation_metadata ri,
      experimental_context = ri_experimental_context ri,
      statistical_evidence = [],
      extracted_text = ri_extracted_text ri,
      extraction_confidence = ri_confidence ri,
      last_verified = now\<rparr>"

text \<open>
  \<open>create_update_edge\<close>: the edge record is created when the key is absent; the
  evidence is appended and the metadata recomputed unless an item with the same
  \<open>paper_id\<close> is already on the edge. It returns the edge key only.
\<close>

definition create_update_edge :: "(rat list \<Rightarrow> rat) \<Rightarrow> string \<Rightarrow> string \<Rightarrow> string \<Rightarrow> relation_info \<Rightarrow> kg \<Rightarrow> string \<times> kg" where
  "create_update_edge np_mean now source_id target_id ri st =
     (let edge_key = edge_key_of source_id target_id (ri_relationship_type ri);
          st1 = (case map_of (edges st) edge_key of
                   None \<Rightarrow>
                     st\<lparr>edges := AList.update edge_key
                          (new_edge now source_id target_id (ri_relationship_type ri))
                          (edges st)\<rparr>
                 | Some e \<Rightarrow> st);
          e = (case map_of (edges st) edge_key of
                 None \<Rightarrow> new_edge now source_id target_id (ri_relationship_type ri)
               | Some e \<Rightarrow> e);
          ev = make_evidence now ri
      in if \<not> is_duplicate_evidence (evidence_items e) ev
         then (edge_key,
               st1\<lparr>edges := AList.update edge_key
                      (update_edge_metadata np_mean now (e\<lparr>evidence_items := evidence_items e @ [ev]\<rparr>))
                      (edges st1)\<rparr>)
         else (edge_key, st1))"

section \<open>Processing one abstract\<close>

record update_record =
  edge_id :: string
  source_id :: string
  target_id :: string
  action :: string

text \<open>
  The body of the loop of \<open>KnowledgeGraphUpdater.process_abstract\<close> treats the source
  and the target entity alike: resolve; on a truthy id update that node, otherwise
  create one. \<open>merge_or_create\<close> is that block.
\<close>

definition merge_or_create :: "llm \<Rightarrow> string \<Rightarrow> entity_info \<Rightarrow> kg \<Rightarrow> (error + string) \<times> kg" where
  "merge_or_create model now entity st =
     (case find_matching_entity model entity (1 / 2) st of
        Inl e \<Rightarrow> (Inl e, st)
      | Inr r \<Rightarrow>
          if truthy_id r
          then (case update_node now (the r) entity st of
                  (Inl e, st') \<Rightarrow> (Inl e, st')
                | (Inr u, st') \<Rightarrow> (Inr (the r), st'))
          else create_node model now entity st)"

text \<open>
  One relation: both endpoints, then the edge, then the change record. The action is
  computed after \<open>create_update_edge\<close> has returned, by asking whether the edge key is
  in \<open>self.graph["edges"]\<close> at that moment.
\<close>

definition process_relation :: "(rat list \<Rightarrow> rat) \<Rightarrow> llm \<Rightarrow> string \<Rightarrow> abstract_info \<Rightarrow> entity_relation \<Rightarrow> kg \<Rightarrow> (error + update_record) \<times> kg" where
  "process_relation np_mean model now info relation st =
     (case merge_or_create model now (source_entity relation) st of
        (Inl e, st1) \<Rightarrow> (Inl e, st1)
      | (Inr src, st1) \<Rightarrow>
     (case merge_or_create model now (target_entity relation) st1 of
        (Inl e, st2) \<Rightarrow> (Inl e, st2)
      | (Inr tgt, st2) \<Rightarrow>
     (case create_update_edge np_mean now src tgt
             \<lparr>ri_relationship_type = rel_type relation,
              ri_paper_id = pmid info,
              ri_citation_metadata =
                \<lparr>title = a_title info, authors = a_authors info,
                 journal = a_journal info, year = a_year info\<rparr>,
              ri_experimental_context = rel_context relation,
              ri_extracted_text = supporting_text relation,
              ri_confidence = confidence relation\<rparr> st2 of
        (eid, st3) \<Rightarrow>
          (Inr \<lparr>edge_id = eid, source_id = src, target_id = tgt,
                action = (if map_of (edges st3) eid \<noteq> None then ''updated'' else ''created'')\<rparr>,
           st3))))"

fun process_relations :: "(rat list \<Rightarrow> rat) \<Rightarrow> llm \<Rightarrow> string \<Rightarrow> abstract_info \<Rightarrow> entity_relation list \<Rightarrow> update_record list \<Rightarrow> kg \<Rightarrow> (error + update_record list) \<times> kg" where
  "process_relations np_mean model now info [] updates st = (Inr updates, st)"
| "process_relations np_mean model now info (relation # rest) updates st =
     (case process_relation np_mean model now info relation st of
        (Inl e, st') \<Rightarrow> (Inl e, st')
      | (Inr u, st') \<Rightarrow> process_relations np_mean model now info rest (updates @ [u]) st')"

text \<open>
  \<open>KnowledgeGraphUpdater.process_abstract\<close>. An exception of the extraction or of a
  relation is logged and raised again; nothing is undone. The normalization loop over
  the extracted entities writes to those entity objects only, which are not the
  objects inside the relations and are not read afterwards, and its own failures are
  caught: it has no effect on the result and is not part of the model.
\<close>

definition process_abstract :: "(rat list \<Rightarrow> rat) \<Rightarrow> llm \<Rightarrow> string \<Rightarrow> abstract_info \<Rightarrow> kg \<Rightarrow> (error + update_record list) \<times> kg" where
  "process_abstract np_mean model now info st =
     (case extraction model info of
        Inl e \<Rightarrow> (Inl e, st)
      | Inr relations \<Rightarrow> process_relations np_mean model now info relations [] st)"

section \<open>The batch loop\<close>

text \<open>
  The loop of \<open>main.py\<close>: for each abstract, \<open>process_abstract\<close> followed by
  \<open>save_graph\<close> inside one \<open>try\<close>; the handler logs the error and the loop goes
  on. \<open>saved\<close> is the persisted document, the nodes and edges last written by
  \<open>save_graph\<close> (a write is taken to succeed).
\<close>

record runtime =
  updater :: kg
  saved :: "(string \<times> node) list \<times> (string \<times> edge) list"

definition save_graph :: "kg \<Rightarrow> (string \<times> node) list \<times> (string \<times> edge) list" where
  "save_graph st = (nodes st, edges st)"

definition main_step :: "(rat list \<Rightarrow> rat) \<Rightarrow> llm \<Rightarrow> string \<Rightarrow> abstract_info \<Rightarrow> runtime \<Rightarrow> runtime" where
  "main_step np_mean model now info rt =
     (case process_abstract np_mean model now info (updater rt) of
        (Inl e, st') \<Rightarrow> rt\<lparr>updater := st'\<rparr>
      | (Inr updates, st') \<Rightarrow> \<lparr>updater = st', saved = save_graph st'\<rparr>)"

fun main_loop :: "(rat list \<Rightarrow> rat) \<Rightarrow> llm \<Rightarrow> string \<Rightarrow> abstract_info list \<Rightarrow> runtime \<Rightarrow> runtime" where
  "main_loop np_mean model now [] rt = rt"
| "main_loop np_mean model now (info # data) rt = main_loop np_mean model now data (main_step np_mean model now info rt)"

section \<open>Validation and repair of an extraction\<close>

text \<open>
  The part of \<open>CerebrasInference.process_abstract\<close> between the parse of the first
  reply and the conversion to dataclasses: the \<open>while attempts < 3\<close> loop
  (\<open>validation_loop\<close>) and the \<open>if attempts == 3\<close> block after it
  (\<open>validate_extraction\<close>). An extraction holds the lists under \<open>"entities"\<close> and
  \<open>"relations"\<close> (an absent key reads as the empty list); \<open>validate_entity\<close> and
  \<open>validate_relation\<close> are the two schema checks, over items of any type, and
  \<open>fix_extraction\<close> is the repair call, which gets the number of the attempt (the
  model may answer differently each time) and may raise. \<open>entities_valid\<close> and
  \<open>relations_valid\<close> are variables of the loop: after it they hold the outcome of the
  last validation that ran. They are unbound before the first iteration, which always
  runs; the initial \<open>False\<close> is never read.
\<close>

record 'j extraction_result =
  entities :: "'j list"
  relations :: "'j list"

record 'j validation =
  validate_entity :: "'j \<Rightarrow> bool"
  validate_relation :: "'j \<Rightarrow> bool"
  fix_extraction :: "nat \<Rightarrow> 'j extraction_result \<Rightarrow> error + 'j extraction_result"

function validation_loop :: "'j validation \<Rightarrow> nat \<Rightarrow> 'j extraction_result \<Rightarrow> bool \<Rightarrow> bool \<Rightarrow> error + (nat \<times> 'j extraction_result \<times> bool \<times> bool)" where
  "validation_loop v attempts x entities_valid relations_valid =
     (if attempts < 3
      then let ev = list_all (validate_entity v) (entities x);
               rv = list_all (validate_relation v) (relations x)
           in if ev \<and> rv then Inr (attempts, x, ev, rv)
              else (case fix_extraction v (attempts + 1) x of
                      Inl e \<Rightarrow> Inl e
                    | Inr x' \<Rightarrow> validation_loop v (attempts + 1) x' ev rv)
      else Inr (attempts, x, entities_valid, relations_valid))"
  by pat_completeness auto
termination
  by (relation "measure (\<lambda>(v, attempts, x, ev, rv). 3 - attempts)") auto

declare validation_loop.simps [simp del]

text \<open>
  After the loop: with \<open>attempts == 3\<close> the two \<open>raise ValueError(f"... {len(attempts)}
  attempts")\<close> statements evaluate \<open>len\<close> of an integer while building the message.
\<close>

definition len_of_int :: "nat \<Rightarrow> error + nat" where
  "len_of_int n = Inl (TypeError ''object of type int has no len()'')"

definition raise_validation_failed :: "string \<Rightarrow> nat \<Rightarrow> error" where
  "raise_validation_failed what attempts =
     (case len_of_int attempts of
        Inl e \<Rightarrow> e
      | Inr n \<Rightarrow> ValueError (''Validation failed: Unable to validate '' @ what
                               @ '' after '' @ str_nat n @ '' attempts''))"

definition validate_extraction :: "'j validation \<Rightarrow> 'j extraction_result \<Rightarrow> error + 'j extraction_result" where
  "validate_extraction v x =
     (case validation_loop v 0 x False False of
        Inl e \<Rightarrow> Inl e
      | Inr (attempts, x', entities_valid, relations_valid) \<Rightarrow>
          if attempts = 3
          then (if \<not> entities_valid then Inl (raise_validation_failed ''entities'' attempts)
                else if \<not> relations_valid then Inl (raise_validation_failed ''relations'' attempts)
                else Inr x')
          else Inr x')"

section \<open>Notions used in the statements\<close>

text \<open>The length of a description, an absent one counting as empty.\<close>

definition desc_len :: "string option \<Rightarrow> nat" where
  "desc_len d = (case d of None \<Rightarrow> 0 | Some s \<Rightarrow> length s)"

text \<open>The evidence list of an edge key; an absent edge has none.\<close>

definition edge_evidence :: "kg \<Rightarrow> string \<Rightarrow> evidence list" where
  "edge_evidence st edge_key =
     (case map_of (edges st) edge_key of None \<Rightarrow> [] | Some e \<Rightarrow> evidence_items e)"



text \<open>
  \<open>grows st st'\<close>: nothing of \<open>st\<close> is missing from \<open>st'\<close>. Every node id and
  every registered name of \<open>st\<close> is still there, and every edge of \<open>st\<close> is still
  there under its key with its evidence list kept as the front of the new one.
\<close>

definition grows :: "kg \<Rightarrow> kg \<Rightarrow> bool" where
  "grows st st' \<longleftrightarrow>
     set (map fst (nodes st)) \<subseteq> set (map fst (nodes st'))
     \<and> set (map fst (name_to_id_map st)) \<subseteq> set (map fst (name_to_id_map st'))
     \<and> (\<forall>k e. map_of (edges st) k = Some e
           \<longrightarrow> (\<exists>e' more. map_of (edges st') k = Some e'
                  \<and> evidence_items e' = evidence_items e @ more))"

section \<open>Example data\<close>

text \<open>
  An empty graph, the scenario of one abstract with the relation GeneA ASSOCIATE
  DiseaseB, and a second abstract whose second relation names a spelling variant of
  the first relation's source. The example collaborator is as helpful as can be: the
  prompt formats, the model answers, and the answer parses to a match. The
  confidences of the examples are 0.75, 0.5 and 0.25: on them every float64 sum and
  quotient that a mean needs is exact, so that \<open>np.mean\<close> returns the value of
  \<open>exact_mean\<close> there.
\<close>

definition exact_mean :: "rat list \<Rightarrow> rat" where
  "exact_mean xs = sum_list xs / of_nat (length xs)"

definition empty_kg :: kg where
  "empty_kg = \<lparr>nodes = [], edges = [], name_to_id_map = []\<rparr>"

definition gene_a :: entity_info where
  "gene_a = \<lparr>name = ''GeneA'', etype = ''GENE'', edescription = Some ''a gene'',
              eexternal_ids = None\<rparr>"

definition gene_a_protein :: entity_info where
  "gene_a_protein = \<lparr>name = ''GeneA'', etype = ''PROTEIN'', edescription = None,
                      eexternal_ids = None\<rparr>"

definition gene_a_short :: entity_info where
  "gene_a_short = \<lparr>name = ''GeneA'', etype = ''GENE'', edescription = Some ''gene'',
                    eexternal_ids = None\<rparr>"

definition gene_a_long :: entity_info where
  "gene_a_long = \<lparr>name = ''GeneA'', etype = ''GENE'', edescription = Some ''a human gene'',
                   eexternal_ids = None\<rparr>"

definition gene_a_ids :: entity_info where
  "gene_a_ids = \<lparr>name = ''GeneA'', etype = ''GENE'', edescription = Some ''gene'',
                  eexternal_ids = Some [(''UMLS'', ''C1'')]\<rparr>"

definition disease_b :: entity_info where
  "disease_b = \<lparr>name = ''DiseaseB'', etype = ''DISEASE'', edescription = None,
                 eexternal_ids = None\<rparr>"

definition aspirin :: entity_info where
  "aspirin = \<lparr>name = ''Aspirin'', etype = ''CHEMICAL'', edescription = None,
               eexternal_ids = None\<rparr>"

definition aspirine :: entity_info where
  "aspirine = \<lparr>name = ''Aspirine'', etype = ''CHEMICAL'', edescription = None,
                eexternal_ids = None\<rparr>"

definition fever :: entity_info where
  "fever = \<lparr>name = ''Fever'', etype = ''DISEASE'', edescription = None, eexternal_ids = None\<rparr>"

definition rel_associate :: entity_relation where
  "rel_associate =
     \<lparr>source_entity = gene_a, target_entity = disease_b, rel_type = ''ASSOCIATE'',
      rel_context = ''{}'', supporting_text = ''GeneA is associated with DiseaseB'',
      confidence = 3 / 4\<rparr>"

definition rel_treat :: entity_relation where
  "rel_treat =
     \<lparr>source_entity = aspirin, target_entity = fever, rel_type = ''TREAT'',
      rel_context = ''{}'', supporting_text = ''Aspirin treats fever'', confidence = 1 / 2\<rparr>"

definition rel_variant :: entity_relation where
  "rel_variant =
     \<lparr>source_entity = aspirine, target_entity = fever, rel_type = ''PREVENT'',
      rel_context = ''{}'', supporting_text = ''Aspirine prevents fever'', confidence = 1 / 4\<rparr>"

definition abstract_100 :: abstract_info where
  "abstract_100 =
     \<lparr>pmid = ''100'', a_title = ''T'', abstract_text = ''GeneA is associated with DiseaseB'',
      a_authors = [], a_journal = ''J'', a_year = Some 2020\<rparr>"

definition abstract_200 :: abstract_info where
  "abstract_200 =
     \<lparr>pmid = ''200'', a_title = ''U'',
      abstract_text = ''Aspirin treats fever. Aspirine prevents fever.'',
      a_authors = [], a_journal = ''J'', a_year = Some 2021\<rparr>"

definition example_model :: llm where
  "example_model =
     \<lparr>format_prompt = (\<lambda>e views. Inr ''prompt''),
      chat_completion = (\<lambda>p. Inr ''reply''),
      json_loads = (\<lambda>r. Some [(''match'', ''node_0'')]),
      extraction = (\<lambda>info. if pmid info = ''100'' then Inr [rel_associate]
                             else Inr [rel_treat, rel_variant])\<rparr>"

definition node_of :: "entity_info \<Rightarrow> string \<Rightarrow> node" where
  "node_of e now =
     \<lparr>entity_type = etype e, primary_name = name e, alternative_names = [],
      external_ids = eexternal_ids e, description = edescription e,
      last_updated = now, creation_date = now\<rparr>"

definition edge_of :: "string \<Rightarrow> string \<Rightarrow> string \<Rightarrow> string \<Rightarrow> int \<Rightarrow> string \<Rightarrow> string \<Rightarrow> rat \<Rightarrow> string \<Rightarrow> edge" where
  "edge_of src tgt rtype pid yr ttl txt conf now =
     \<lparr>source_node = src, target_node = tgt, relationship_type = rtype,
      evidence_items =
        [\<lparr>paper_id = pid,
          citation_metadata = \<lparr>title = ttl, authors = [], journal = ''J'', year = Some yr\<rparr>,
          experimental_context = ''{}'', statistical_evidence = [],
          extracted_text = txt, extraction_confidence = conf, last_verified = now\<rparr>],
      aggregated =
        \<lparr>total_papers = 1, earliest_evidence = Some yr, latest_evidence = Some yr,
         evidence_strength = conf, contradictory_evidence = False,
         meta_last_updated = Some now\<rparr>,
      edge_last_updated = now\<rparr>"

text \<open>The graph after abstract 100 on the empty graph.\<close>

definition kg_100 :: kg where
  "kg_100 =
     \<lparr>nodes = [(''node_0'', node_of gene_a ''t1''), (''node_1'', node_of disease_b ''t1'')],
      edges = [(''node_0_node_1_ASSOCIATE'',
                edge_of ''node_0'' ''node_1'' ''ASSOCIATE'' ''100'' 2020 ''T''
                  ''GeneA is associated with DiseaseB'' (3 / 4) ''t1'')],
      name_to_id_map = [(''genea'', ''node_0''), (''diseaseb'', ''node_1'')]\<rparr>"

text \<open>The graph left in memory by abstract 200 on the empty graph: its first relation.\<close>

definition kg_200 :: kg where
  "kg_200 =
     \<lparr>nodes = [(''node_0'', node_of aspirin ''t1''), (''node_1'', node_of fever ''t1'')],
      edges = [(''node_0_node_1_TREAT'',
                edge_of ''node_0'' ''node_1'' ''TREAT'' ''200'' 2021 ''U''
                  ''Aspirin treats fever'' (1 / 2) ''t1'')],
      name_to_id_map = [(''aspirin'', ''node_0''), (''fever'', ''node_1'')]\<rparr>"

text \<open>An edge with two evidence items, of the years 2018 and unknown.\<close>

definition evidence_of :: "string \<Rightarrow> int option \<Rightarrow> rat \<Rightarrow> evidence" where
  "evidence_of pid yr conf =
     \<lparr>paper_id = pid,
      citation_metadata = \<lparr>title = ''T'', authors = [], journal = ''J'', year = yr\<rparr>,
      experimental_context = ''{}'', statistical_evidence = [],
      extracted_text = ''text'', extraction_confidence = conf, last_verified = ''t0''\<rparr>"

definition kg_two_papers :: kg where
  "kg_two_papers =
     \<lparr>nodes = [(''node_0'', node_of gene_a ''t0''), (''node_1'', node_of disease_b ''t0'')],
      edges = [(''node_0_node_1_ASSOCIATE'',
                \<lparr>source_node = ''node_0'', target_node = ''node_1'',
                 relationship_type = ''ASSOCIATE'',
                 evidence_items = [evidence_of ''11'' (Some 2018) (3 / 4),
                                   evidence_of ''12'' None (1 / 2)],
                 aggregated =
                   \<lparr>total_papers = 2, earliest_evidence = Some 2018,
                    latest_evidence = Some 2018, evidence_strength = 5 / 8,
                    contradictory_evidence = False, meta_last_updated = Some ''t0''\<rparr>,
                 edge_last_updated = ''t0''\<rparr>)],
      name_to_id_map = [(''genea'', ''node_0''), (''diseaseb'', ''node_1'')]\<rparr>"

definition third_paper :: relation_info where
  "third_paper =
     \<lparr>ri_relationship_type = ''ASSOCIATE'', ri_paper_id = ''13'',
      ri_citation_metadata = \<lparr>title = ''T3'', authors = [], journal = ''J'', year = Some 2021\<rparr>,
      ri_experimental_context = ''{}'', ri_extracted_text = ''text'', ri_confidence = 1 / 4\<rparr>"


text \<open>Two nodes of the type GENE for the threshold: the names AC and axyz.\<close>

definition node_ac :: node where
  "node_ac =
     \<lparr>entity_type = ''GENE'', primary_name = ''AC'', alternative_names = [''wxyz'', ''Ab2''],
      external_ids = None, description = None, last_updated = ''t0'', creation_date = ''t0''\<rparr>"

definition node_axyz :: node where
  "node_axyz =
     \<lparr>entity_type = ''GENE'', primary_name = ''axyz'', alternative_names = [],
      external_ids = None, description = None, last_updated = ''t0'', creation_date = ''t0''\<rparr>"

definition entity_ab :: entity_info where
  "entity_ab = \<lparr>name = ''Ab'', etype = ''GENE'', edescription = None, eexternal_ids = None\<rparr>"

text \<open>
  Schema checks on items that are simply valid or not; a repair that changes nothing
  until the third attempt, which returns a valid extraction.
\<close>

definition third_repair_valid :: "bool validation" where
  "third_repair_valid =
     \<lparr>validate_entity = (\<lambda>j. j), validate_relation = (\<lambda>j. j),
      fix_extraction = (\<lambda>n x. if n = 3 then Inr \<lparr>entities = [True], relations = [True]\<rparr>
                                else Inr x)\<rparr>"

definition bad_extraction :: "bool extraction_result" where
  "bad_extraction = \<lparr>entities = [False], relations = [True]\<rparr>"

section \<open>Evaluation lemmas\<close>

lemma lower_vals:
  "lower ''GeneA'' = ''genea''" "lower ''DiseaseB'' = ''diseaseb''"
  "lower ''Aspirin'' = ''aspirin''" "lower ''Aspirine'' = ''aspirine''"
  "lower ''Fever'' = ''fever''" "lower ''Ab'' = ''ab''" "lower ''AC'' = ''ac''"
  "lower ''wxyz'' = ''wxyz''" "lower ''Ab2'' = ''ab2''" "lower ''axyz'' = ''axyz''"
  by code_simp+

lemma ratio_vals:
  "ratio ''aspirine'' ''aspirin'' = 14 / 15" "ratio ''diseaseb'' ''fever'' = 4 / 13"
  "ratio ''ab'' ''ac'' = 1 / 2" "ratio ''ab'' ''axyz'' = 1 / 3"
  by code_simp+

lemma str_nat_vals:
  "str_nat 0 = ''0''" "str_nat (Suc 0) = ''1''" "str_nat (Suc (Suc 0)) = ''2''"
  "str_nat (Suc (Suc (Suc 0))) = ''3''"
  by code_simp+

lemmas model_defs =
  process_abstract_def process_relation_def merge_or_create_def create_node_def
  find_matching_entity_def fuzzy_match_def candidate_entities_def is_candidate_def
  known_names_def truthy_id_def create_update_edge_def edge_key_of_def new_edge_def
  make_evidence_def is_duplicate_evidence_def update_edge_metadata_def known_years_def
  exact_mean_def disambiguate_entity_def candidate_view_def update_node_def
  update_description_def update_alternative_names_def Let_def

lemmas example_defs =
  empty_kg_def gene_a_def disease_b_def aspirin_def aspirine_def fever_def
  rel_associate_def rel_treat_def rel_variant_def abstract_100_def abstract_200_def
  example_model_def node_of_def edge_of_def kg_100_def kg_200_def

lemma run_100:
  "process_abstract exact_mean example_model ''t1'' abstract_100 empty_kg
   = (Inr [\<lparr>edge_id = ''node_0_node_1_ASSOCIATE'', source_id = ''node_0'',
            target_id = ''node_1'', action = ''updated''\<rparr>], kg_100)"
  by (simp add: model_defs example_defs lower_vals ratio_vals str_nat_vals)

lemma run_200:
  "process_abstract exact_mean example_model ''t1'' abstract_200 empty_kg
   = (Inl (TypeError ''string indices must be integers''), kg_200)"
  by (simp add: model_defs example_defs lower_vals ratio_vals str_nat_vals)

lemma run_200_then_100:
  "fst (process_abstract exact_mean example_model ''t1'' abstract_100 kg_200)
   = Inr [\<lparr>edge_id = ''node_2_node_3_ASSOCIATE'', source_id = ''node_2'',
            target_id = ''node_3'', action = ''updated''\<rparr>]"
  by (simp add: model_defs example_defs lower_vals ratio_vals str_nat_vals)

section \<open>Lemmas on the node update\<close>

lemma description_update_description:
  "description (update_description e nd) =
     (if desc_len (edescription e) > desc_len (description nd)
      then edescription e else description nd)"
  by (auto simp: update_description_def desc_len_def split: option.splits)

lemma description_update_alternative_names [simp]:
  "description (update_alternative_names e nd) = description nd"
  by (simp add: update_alternative_names_def)

section \<open>Lemmas on the candidates and the disambiguation\<close>

lemma candidate_entities_iff:
  "distinct (map fst ns) \<Longrightarrow> (node_id, nd) \<in> set ns \<Longrightarrow>
   node_id \<in> set (candidate_entities t e ns) \<longleftrightarrow> is_candidate t e nd"
proof (induction ns)
  case Nil
  then show ?case by simp
next
  case (Cons p ns)
  obtain k v where p: "p = (k, v)" by (cases p)
  from Cons.prems(1) p have notin: "k \<notin> fst ` set ns" and d: "distinct (map fst ns)"
    by simp_all
  have cands: "set (candidate_entities t e ns) \<subseteq> fst ` set ns"
    by (auto simp: candidate_entities_def)
  show ?case
  proof (cases "(node_id, nd) = p")
    case True
    then have "node_id = k" "nd = v" using p by simp_all
    with notin cands show ?thesis
      by (auto simp: candidate_entities_def p)
  next
    case False
    with Cons.prems(2) have mem: "(node_id, nd) \<in> set ns" by simp
    then have "node_id \<in> fst ` set ns" by force
    with notin have "node_id \<noteq> k" by auto
    with Cons.IH [OF d mem] show ?thesis
      by (simp add: candidate_entities_def p)
  qed
qed

lemma candidate_entities_distinct:
  "distinct (map fst ns) \<Longrightarrow> distinct (candidate_entities t e ns)"
  by (simp add: candidate_entities_def distinct_map_filter)

lemma disambiguate_entity_str:
  "disambiguate_entity model e (map PStr (c # cs))
   = Inl (TypeError ''string indices must be integers'')"
  by (simp add: disambiguate_entity_def candidate_view_def)

lemma fuzzy_match_cases:
  "fuzzy_match model e t st =
     (if candidate_entities t e (nodes st) = [] then Inr None
      else Inl (TypeError ''string indices must be integers''))"
proof (cases "candidate_entities t e (nodes st)")
  case Nil
  then show ?thesis by (simp add: fuzzy_match_def)
next
  case (Cons c cs)
  with disambiguate_entity_str [of model e c cs] show ?thesis
    by (simp add: fuzzy_match_def)
qed

section \<open>Lemmas on the edge upsert\<close>




lemma is_duplicate_paper_id:
  "is_duplicate_evidence evs (make_evidence now ri)
   \<longleftrightarrow> list_ex (\<lambda>ev. paper_id ev = ri_paper_id ri) evs"
  by (simp add: is_duplicate_evidence_def make_evidence_def)

lemma create_update_edge_key [simp]:
  "fst (create_update_edge np_mean now s t ri st) = edge_key_of s t (ri_relationship_type ri)"
  by (simp add: create_update_edge_def Let_def)

lemma create_update_edge_fresh:
  assumes "\<not> is_duplicate_evidence (edge_evidence st (edge_key_of s t (ri_relationship_type ri)))
               (make_evidence now ri)"
  shows "map_of (edges (snd (create_update_edge np_mean now s t ri st)))
           (edge_key_of s t (ri_relationship_type ri))
         = Some (update_edge_metadata np_mean now
              ((case map_of (edges st) (edge_key_of s t (ri_relationship_type ri)) of
                  None \<Rightarrow> new_edge now s t (ri_relationship_type ri) | Some e \<Rightarrow> e)
               \<lparr>evidence_items := edge_evidence st (edge_key_of s t (ri_relationship_type ri))
                                     @ [make_evidence now ri]\<rparr>))"
  using assms
  by (simp add: create_update_edge_def Let_def edge_evidence_def update_conv' new_edge_def
           split: option.splits)

lemma create_update_edge_duplicate:
  assumes "is_duplicate_evidence (edge_evidence st (edge_key_of s t (ri_relationship_type ri)))
             (make_evidence now ri)"
  shows "create_update_edge np_mean now s t ri st = (edge_key_of s t (ri_relationship_type ri), st)"
  using assms
  by (simp add: create_update_edge_def Let_def edge_evidence_def is_duplicate_evidence_def
           split: option.splits)

lemma edge_evidence_after_upsert:
  "list_ex (\<lambda>ev. paper_id ev = ri_paper_id ri)
     (edge_evidence (snd (create_update_edge np_mean now s t ri st))
        (edge_key_of s t (ri_relationship_type ri)))"
proof (cases "is_duplicate_evidence (edge_evidence st (edge_key_of s t (ri_relationship_type ri)))
                (make_evidence now ri)")
  case True
  from create_update_edge_duplicate [OF True] True show ?thesis
    by (simp add: is_duplicate_paper_id)
next
  case False
  from create_update_edge_fresh [OF False] show ?thesis
    by (simp add: edge_evidence_def update_edge_metadata_def Let_def make_evidence_def)
qed

lemma create_update_edge_present:
  "create_update_edge np_mean now s t ri st = (eid, st') \<Longrightarrow> \<exists>e. map_of (edges st') eid = Some e"
  by (auto simp: create_update_edge_def Let_def update_conv' split: option.splits if_splits)

section \<open>Lemmas on the change records\<close>

lemma process_relation_action:
  "process_relation np_mean model now info r st = (Inr u, st') \<Longrightarrow> action u = ''updated''"
  by (auto simp: process_relation_def split: prod.splits sum.splits
        dest: create_update_edge_present)

lemma process_relations_action:
  "process_relations np_mean model now info rs us st = (Inr us', st') \<Longrightarrow>
   list_all (\<lambda>u. action u = ''updated'') us \<Longrightarrow> list_all (\<lambda>u. action u = ''updated'') us'"
proof (induction rs arbitrary: us st)
  case Nil
  then show ?case by simp
next
  case (Cons r rs)
  obtain res st1 where pr: "process_relation np_mean model now info r st = (res, st1)"
    by (cases "process_relation np_mean model now info r st")
  show ?case
  proof (cases res)
    case (Inl e)
    with pr Cons.prems(1) show ?thesis by simp
  next
    case (Inr u)
    with pr process_relation_action have "action u = ''updated''" by blast
    with Cons.prems(2) have "list_all (\<lambda>u. action u = ''updated'') (us @ [u])" by simp
    moreover from pr Inr Cons.prems(1)
    have "process_relations np_mean model now info rs (us @ [u]) st1 = (Inr us', st')" by simp
    ultimately show ?thesis by (rule Cons.IH [rotated])
  qed
qed

section \<open>Lemmas on the validation loop\<close>

lemma validation_loop_exhausted:
  "validation_loop v n x ev rv = Inr (3, x', ev', rv') \<Longrightarrow> n < 3 \<or> \<not> (ev \<and> rv) \<Longrightarrow>
   \<not> (ev' \<and> rv')"
proof (induction v n x ev rv rule: validation_loop.induct)
  case (1 v attempts x ev rv)
  show ?case
  proof (cases "attempts < 3")
    case False
    with "1.prems" show ?thesis by (simp add: validation_loop.simps)
  next
    case True
    note lt = this
    let ?ev = "list_all (validate_entity v) (entities x)"
    let ?rv = "list_all (validate_relation v) (relations x)"
    show ?thesis
    proof (cases "?ev \<and> ?rv")
      case True
      with lt "1.prems" show ?thesis by (simp add: validation_loop.simps [of v attempts])
    next
      case False
      with lt "1.prems" obtain x1 where fx: "fix_extraction v (attempts + 1) x = Inr x1"
        and rec: "validation_loop v (attempts + 1) x1 ?ev ?rv = Inr (3, x', ev', rv')"
        by (auto simp: validation_loop.simps [of v attempts] Let_def split: sum.splits)
      from False have "attempts + 1 < 3 \<or> \<not> (?ev \<and> ?rv)" by simp
      from "1.IH" [OF lt refl refl False fx rec this] show ?thesis .
    qed
  qed
qed

lemma loop_third_repair_valid:
  "validation_loop third_repair_valid 0 bad_extraction False False
   = Inr (3, \<lparr>entities = [True], relations = [True]\<rparr>, False, True)"
  by (simp add: validation_loop.simps third_repair_valid_def bad_extraction_def)

section \<open>Lemmas on what a failing abstract leaves behind\<close>

lemma grows_refl: "grows st st"
  by (simp add: grows_def)

lemma grows_same_edges:
  "edges st' = edges st \<Longrightarrow> set (map fst (nodes st)) \<subseteq> set (map fst (nodes st')) \<Longrightarrow>
   set (map fst (name_to_id_map st)) \<subseteq> set (map fst (name_to_id_map st')) \<Longrightarrow> grows st st'"
  by (simp add: grows_def)

lemma grows_trans:
  assumes "grows a b" "grows b c"
  shows "grows a c"
proof -
  have ed: "\<exists>e'' more. map_of (edges c) k = Some e'' \<and> evidence_items e'' = evidence_items e @ more"
    if "map_of (edges a) k = Some e" for k e
  proof -
    from assms(1) that obtain e' m1 where
      b: "map_of (edges b) k = Some e'" "evidence_items e' = evidence_items e @ m1"
      unfolding grows_def by blast
    from assms(2) b(1) obtain e'' m2 where
      c: "map_of (edges c) k = Some e''" "evidence_items e'' = evidence_items e' @ m2"
      unfolding grows_def by blast
    from b(2) c show ?thesis by simp
  qed
  from assms have "set (map fst (nodes a)) \<subseteq> set (map fst (nodes c))"
    and "set (map fst (name_to_id_map a)) \<subseteq> set (map fst (name_to_id_map c))"
    unfolding grows_def by blast+
  with ed show ?thesis unfolding grows_def by blast
qed

lemma keys_update: "fst ` set al \<subseteq> fst ` set (AList.update k v al)"
  by (auto simp: dom_update)

lemma update_node_grows: "grows st (snd (update_node now node_id e st))"
proof (cases "map_of (nodes st) node_id")
  case None
  then show ?thesis by (simp add: update_node_def grows_refl)
next
  case (Some nd)
  show ?thesis
    by (rule grows_same_edges) (simp_all add: update_node_def Let_def Some keys_update)
qed

lemma create_node_grows: "grows st (snd (create_node model now e st))"
proof (cases "find_matching_entity model e (1 / 2) st")
  case (Inl err)
  then show ?thesis by (simp add: create_node_def grows_refl)
next
  case (Inr r)
  show ?thesis
    by (rule grows_same_edges) (simp_all add: create_node_def Let_def Inr keys_update)
qed

lemma merge_or_create_grows: "grows st (snd (merge_or_create model now e st))"
proof (cases "find_matching_entity model e (1 / 2) st")
  case (Inl err)
  then show ?thesis by (simp add: merge_or_create_def grows_refl)
next
  case (Inr r)
  show ?thesis
  proof (cases "truthy_id r")
    case True
    with Inr update_node_grows [of st now "the r" e] show ?thesis
      by (auto simp: merge_or_create_def split: prod.splits sum.splits)
  next
    case False
    with Inr create_node_grows [of st model now e] show ?thesis
      by (simp add: merge_or_create_def)
  qed
qed

lemma create_update_edge_edges:
  "map_of (edges (snd (create_update_edge np_mean now s t ri st))) k
   = (if k = edge_key_of s t (ri_relationship_type ri)
      then map_of (edges (snd (create_update_edge np_mean now s t ri st)))
             (edge_key_of s t (ri_relationship_type ri))
      else map_of (edges st) k)"
  by (simp add: create_update_edge_def Let_def update_conv' split: option.splits)

lemma create_update_edge_keeps_evidence:
  "\<exists>e' more. map_of (edges (snd (create_update_edge np_mean now s t ri st)))
                 (edge_key_of s t (ri_relationship_type ri)) = Some e'
             \<and> evidence_items e'
                = edge_evidence st (edge_key_of s t (ri_relationship_type ri)) @ more"
proof (cases "is_duplicate_evidence
                (edge_evidence st (edge_key_of s t (ri_relationship_type ri)))
                (make_evidence now ri)")
  case True
  then obtain e where "map_of (edges st) (edge_key_of s t (ri_relationship_type ri)) = Some e"
    by (auto simp: edge_evidence_def is_duplicate_evidence_def split: option.splits)
  with create_update_edge_duplicate [OF True, of np_mean] show ?thesis
    by (simp add: edge_evidence_def)
next
  case False
  from create_update_edge_fresh [OF False, of np_mean] show ?thesis
    by (simp add: update_edge_metadata_def Let_def)
qed

lemma create_update_edge_grows: "grows st (snd (create_update_edge np_mean now s t ri st))"
proof -
  let ?st = "snd (create_update_edge np_mean now s t ri st)"
  let ?key = "edge_key_of s t (ri_relationship_type ri)"
  have n: "nodes ?st = nodes st" "name_to_id_map ?st = name_to_id_map st"
    by (simp_all add: create_update_edge_def Let_def split: option.splits)
  have "\<exists>e' more. map_of (edges ?st) k = Some e' \<and> evidence_items e' = evidence_items e @ more"
    if "map_of (edges st) k = Some e" for k e
  proof (cases "k = ?key")
    case True
    with that have "edge_evidence st ?key = evidence_items e" by (simp add: edge_evidence_def)
    with create_update_edge_keeps_evidence [of np_mean now s t ri st] True show ?thesis by simp
  next
    case False
    with that create_update_edge_edges [of np_mean now s t ri st k] show ?thesis by simp
  qed
  with n show ?thesis unfolding grows_def by simp
qed

lemma process_relation_grows: "grows st (snd (process_relation np_mean model now info r st))"
proof -
  let ?src = "merge_or_create model now (source_entity r) st"
  have g1: "grows st (snd ?src)" by (rule merge_or_create_grows)
  show ?thesis
  proof (cases "fst ?src")
    case (Inl e)
    with g1 show ?thesis
      by (auto simp: process_relation_def split: prod.splits sum.splits)
  next
    case (Inr src)
    let ?tgt = "merge_or_create model now (target_entity r) (snd ?src)"
    have g2: "grows st (snd ?tgt)"
      using g1 merge_or_create_grows by (rule grows_trans)
    show ?thesis
    proof (cases "fst ?tgt")
      case (Inl e)
      with Inr g2 show ?thesis
        by (auto simp: process_relation_def split: prod.splits sum.splits)
    next
      case tgt: (Inr tgt)
      let ?ri = "\<lparr>ri_relationship_type = rel_type r, ri_paper_id = pmid info,
                   ri_citation_metadata =
                     \<lparr>title = a_title info, authors = a_authors info,
                      journal = a_journal info, year = a_year info\<rparr>,
                   ri_experimental_context = rel_context r,
                   ri_extracted_text = supporting_text r,
                   ri_confidence = confidence r\<rparr>"
      have "grows st (snd (create_update_edge np_mean now src tgt ?ri (snd ?tgt)))"
        using g2 create_update_edge_grows by (rule grows_trans)
      with Inr tgt show ?thesis
        by (auto simp: process_relation_def split: prod.splits sum.splits)
    qed
  qed
qed

lemma process_relations_grows:
  "grows st (snd (process_relations np_mean model now info rs us st))"
proof (induction rs arbitrary: us st)
  case Nil
  show ?case by (simp add: grows_refl)
next
  case (Cons r rs)
  let ?one = "process_relation np_mean model now info r st"
  have g1: "grows st (snd ?one)" by (rule process_relation_grows)
  show ?case
  proof (cases "fst ?one")
    case (Inl e)
    with g1 show ?thesis by (auto split: prod.splits sum.splits)
  next
    case (Inr u)
    have "grows st (snd (process_relations np_mean model now info rs (us @ [u]) (snd ?one)))"
      using g1 Cons.IH by (rule grows_trans)
    with Inr show ?thesis by (auto split: prod.splits sum.splits)
  qed
qed

lemma process_abstract_grows: "grows st (snd (process_abstract np_mean model now info st))"
  using process_relations_grows [of st np_mean model now info _ "[]"]
  by (auto simp: process_abstract_def grows_refl split: sum.splits)

lemma process_relations_append_fail:
  "process_relations np_mean model now info done us st = (Inr us1, st1) \<Longrightarrow>
   process_relation np_mean model now info r st1 = (Inl e, st2) \<Longrightarrow>
   process_relations np_mean model now info (done @ r # rest) us st = (Inl e, st2)"
proof (induction "done" arbitrary: us st)
  case Nil
  then show ?case by simp
next
  case (Cons d ds)
  obtain res sd where pd: "process_relation np_mean model now info d st = (res, sd)"
    by (cases "process_relation np_mean model now info d st")
  show ?case
  proof (cases res)
    case (Inl err)
    with pd Cons.prems(1) show ?thesis by simp
  next
    case (Inr u)
    with pd Cons.prems(1)
    have "process_relations np_mean model now info ds (us @ [u]) sd = (Inr us1, st1)" by simp
    from Cons.IH [OF this Cons.prems(2)] pd Inr show ?thesis by simp
  qed
qed

section \<open>The claims\<close>

text \<open>
  C1. The claim: when the fuzzy step yields at least one candidate, resolution hands
  the entity and the candidates to the disambiguation capability and returns its
  answer, the call completing rather than failing. The program does the opposite on
  that whole domain: \<open>find_matching_entity\<close> passes a list of node ids (strings), and
  \<open>disambiguate_entity\<close> subscripts each candidate with \<open>'entity_id'\<close> before it
  contacts the model. Whenever the fuzzy stage is reached with a non-empty candidate
  list, the call raises \<open>TypeError\<close>, whatever the collaborator would answer.
\<close>

theorem disambiguation_delegation_raises:
  assumes "candidate_entities (1 / 2) e (nodes st) \<noteq> []"
    and "map_of (name_to_id_map st) (lower (name e)) = None
         \<or> (\<exists>hit nd. map_of (name_to_id_map st) (lower (name e)) = Some hit
                \<and> map_of (nodes st) hit = Some nd \<and> entity_type nd \<noteq> etype e)"
  shows "find_matching_entity model e (1 / 2) st
         = Inl (TypeError ''string indices must be integers'')"
  using assms by (auto simp: find_matching_entity_def fuzzy_match_cases)

theorem disambiguation_delegation_raises_witness:
  "candidate_entities (1 / 2) aspirine (nodes kg_200) = [''node_0'']
   \<and> map_of (name_to_id_map kg_200) (lower (name aspirine)) = None
   \<and> find_matching_entity example_model aspirine (1 / 2) kg_200
     = Inl (TypeError ''string indices must be integers'')"
proof -
  have c: "candidate_entities (1 / 2) aspirine (nodes kg_200) = [''node_0'']"
    by (simp add: candidate_entities_def is_candidate_def known_names_def example_defs
          lower_vals ratio_vals)
  then have h1: "candidate_entities (1 / 2) aspirine (nodes kg_200) \<noteq> []" by simp
  have n: "map_of (name_to_id_map kg_200) (lower (name aspirine)) = None"
    by (simp add: example_defs lower_vals)
  then have h2: "map_of (name_to_id_map kg_200) (lower (name aspirine)) = None
         \<or> (\<exists>hit nd. map_of (name_to_id_map kg_200) (lower (name aspirine)) = Some hit
                \<and> map_of (nodes kg_200) hit = Some nd \<and> entity_type nd \<noteq> etype aspirine)"
    by simp
  from disambiguation_delegation_raises [OF h1 h2, of example_model] c n
  show ?thesis by simp
qed

text \<open>
  C2. The claim: the change record has the action \<open>created\<close> when the upsert created
  the edge record and \<open>updated\<close> when it reused one. The program computes the action
  after the upsert, from the membership of the edge key in the edges at that moment,
  and the upsert has just put the key there: every change record of every abstract
  that is processed to the end says \<open>updated\<close>, also for an edge that did not exist
  before.
\<close>

theorem action_always_updated:
  assumes "process_abstract np_mean model now info st = (Inr updates, st')"
  shows "list_all (\<lambda>u. action u = ''updated'') updates"
proof -
  from assms obtain rs where "extraction model info = Inr rs"
    and "process_relations np_mean model now info rs [] st = (Inr updates, st')"
    by (auto simp: process_abstract_def split: sum.splits)
  from process_relations_action [OF this(2)] show ?thesis by simp
qed

theorem action_always_updated_witness:
  "map_of (edges empty_kg) ''node_0_node_1_ASSOCIATE'' = None
   \<and> process_abstract exact_mean example_model ''t1'' abstract_100 empty_kg
     = (Inr [\<lparr>edge_id = ''node_0_node_1_ASSOCIATE'', source_id = ''node_0'',
              target_id = ''node_1'', action = ''updated''\<rparr>], kg_100)
   \<and> list_all (\<lambda>u. action u = ''updated'')
        [\<lparr>edge_id = ''node_0_node_1_ASSOCIATE'', source_id = ''node_0'',
          target_id = ''node_1'', action = ''updated''\<rparr>]"
  using action_always_updated [OF run_100] run_100 by (simp add: empty_kg_def)

text \<open>
  C3. Whenever \<open>find_matching_entity\<close> returns a node id, that node exists and has the
  type of the incoming entity; an exact name hit on a node of another type is not
  returned, the result being that of the fuzzy stage. (An id can only come from the
  exact stage: the fuzzy stage ends in no match or in the exception of C1.)
\<close>

theorem resolution_type_safe:
  "(find_matching_entity model e t st = Inr (Some node_id)
      \<longrightarrow> (\<exists>nd. map_of (nodes st) node_id = Some nd \<and> entity_type nd = etype e))
   \<and> (\<forall>hit nd. map_of (name_to_id_map st) (lower (name e)) = Some hit
          \<and> map_of (nodes st) hit = Some nd \<and> entity_type nd \<noteq> etype e
        \<longrightarrow> find_matching_entity model e t st = fuzzy_match model e t st
            \<and> find_matching_entity model e t st \<noteq> Inr (Some hit))"
  by (auto simp: find_matching_entity_def fuzzy_match_cases split: option.splits if_splits)

theorem resolution_type_safe_witness:
  "find_matching_entity example_model gene_a (1 / 2) kg_100 = Inr (Some ''node_0'')
   \<and> (\<exists>nd. map_of (nodes kg_100) ''node_0'' = Some nd \<and> entity_type nd = etype gene_a)
   \<and> map_of (name_to_id_map kg_100) (lower (name gene_a_protein)) = Some ''node_0''
   \<and> map_of (nodes kg_100) ''node_0'' = Some (node_of gene_a ''t1'')
   \<and> entity_type (node_of gene_a ''t1'') \<noteq> etype gene_a_protein
   \<and> find_matching_entity example_model gene_a_protein (1 / 2) kg_100
     = fuzzy_match example_model gene_a_protein (1 / 2) kg_100
   \<and> find_matching_entity example_model gene_a_protein (1 / 2) kg_100 \<noteq> Inr (Some ''node_0'')"
proof -
  have a: "find_matching_entity example_model gene_a (1 / 2) kg_100 = Inr (Some ''node_0'')"
    by (simp add: find_matching_entity_def example_defs lower_vals)
  have b: "map_of (name_to_id_map kg_100) (lower (name gene_a_protein)) = Some ''node_0''"
    "map_of (nodes kg_100) ''node_0'' = Some (node_of gene_a ''t1'')"
    "entity_type (node_of gene_a ''t1'') \<noteq> etype gene_a_protein"
    by (simp_all add: example_defs gene_a_protein_def lower_vals)
  from resolution_type_safe [of example_model gene_a "1 / 2" kg_100 "''node_0''"] a
  have c: "\<exists>nd. map_of (nodes kg_100) ''node_0'' = Some nd \<and> entity_type nd = etype gene_a"
    by blast
  from resolution_type_safe [of example_model gene_a_protein "1 / 2" kg_100 "''node_0''"] b
  have d: "find_matching_entity example_model gene_a_protein (1 / 2) kg_100
             = fuzzy_match example_model gene_a_protein (1 / 2) kg_100
           \<and> find_matching_entity example_model gene_a_protein (1 / 2) kg_100
               \<noteq> Inr (Some ''node_0'')"
    by blast
  from a b c d show ?thesis by blast
qed

text \<open>
  C4. An upsert whose evidence carries a \<open>paper_id\<close> already present on the edge
  changes nothing, neither the evidence list nor the aggregated metadata nor anything
  else of the state, and raises nothing; upserting evidence of one paper twice on the
  same edge gives the state that upserting it once gives.
\<close>

theorem duplicate_evidence_noop:
  "(list_ex (\<lambda>ev. paper_id ev = ri_paper_id ri)
       (edge_evidence st (edge_key_of s t (ri_relationship_type ri)))
      \<longrightarrow> snd (create_update_edge np_mean now s t ri st) = st)
   \<and> (ri_paper_id ri' = ri_paper_id ri \<and> ri_relationship_type ri' = ri_relationship_type ri
      \<longrightarrow> snd (create_update_edge np_mean now' s t ri' (snd (create_update_edge np_mean now s t ri st)))
          = snd (create_update_edge np_mean now s t ri st))"
proof (intro conjI impI)
  assume "list_ex (\<lambda>ev. paper_id ev = ri_paper_id ri)
            (edge_evidence st (edge_key_of s t (ri_relationship_type ri)))"
  then have "is_duplicate_evidence (edge_evidence st (edge_key_of s t (ri_relationship_type ri)))
               (make_evidence now ri)"
    by (simp add: is_duplicate_paper_id)
  from create_update_edge_duplicate [OF this]
  show "snd (create_update_edge np_mean now s t ri st) = st" by simp
next
  assume eq: "ri_paper_id ri' = ri_paper_id ri
              \<and> ri_relationship_type ri' = ri_relationship_type ri"
  let ?st = "snd (create_update_edge np_mean now s t ri st)"
  from edge_evidence_after_upsert [of ri np_mean now s t st] eq
  have "is_duplicate_evidence (edge_evidence ?st (edge_key_of s t (ri_relationship_type ri')))
          (make_evidence now' ri')"
    by (simp add: is_duplicate_paper_id)
  from create_update_edge_duplicate [OF this]
  show "snd (create_update_edge np_mean now' s t ri' ?st) = ?st" by simp
qed

theorem duplicate_evidence_noop_witness:
  "list_ex (\<lambda>ev. paper_id ev = ri_paper_id (third_paper\<lparr>ri_paper_id := ''11''\<rparr>))
     (edge_evidence kg_two_papers
        (edge_key_of ''node_0'' ''node_1''
           (ri_relationship_type (third_paper\<lparr>ri_paper_id := ''11''\<rparr>))))
   \<and> snd (create_update_edge exact_mean ''t2'' ''node_0'' ''node_1''
            (third_paper\<lparr>ri_paper_id := ''11''\<rparr>) kg_two_papers) = kg_two_papers
   \<and> snd (create_update_edge exact_mean ''t3'' ''node_0'' ''node_1'' third_paper
            (snd (create_update_edge exact_mean ''t2'' ''node_0'' ''node_1'' third_paper kg_two_papers)))
     = snd (create_update_edge exact_mean ''t2'' ''node_0'' ''node_1'' third_paper kg_two_papers)"
proof -
  have h: "list_ex (\<lambda>ev. paper_id ev = ri_paper_id (third_paper\<lparr>ri_paper_id := ''11''\<rparr>))
     (edge_evidence kg_two_papers
        (edge_key_of ''node_0'' ''node_1''
           (ri_relationship_type (third_paper\<lparr>ri_paper_id := ''11''\<rparr>))))"
    by (simp add: edge_evidence_def kg_two_papers_def edge_key_of_def third_paper_def
          evidence_of_def)
  from duplicate_evidence_noop
         [of "third_paper\<lparr>ri_paper_id := ''11''\<rparr>" kg_two_papers "''node_0''" "''node_1''"
             exact_mean "''t2''" third_paper "''t3''"] h
  have a: "snd (create_update_edge exact_mean ''t2'' ''node_0'' ''node_1''
            (third_paper\<lparr>ri_paper_id := ''11''\<rparr>) kg_two_papers) = kg_two_papers"
    by blast
  from duplicate_evidence_noop
         [of third_paper kg_two_papers "''node_0''" "''node_1''" exact_mean "''t2''" third_paper
             "''t3''"]
  have b: "snd (create_update_edge exact_mean ''t3'' ''node_0'' ''node_1'' third_paper
            (snd (create_update_edge exact_mean ''t2'' ''node_0'' ''node_1'' third_paper kg_two_papers)))
     = snd (create_update_edge exact_mean ''t2'' ''node_0'' ''node_1'' third_paper kg_two_papers)"
    by blast
  from h a b show ?thesis by blast
qed




text \<open>
  C6. The claim: a failure partway through an abstract propagates without rollback,
  the caller goes on with the next abstract, and the caller persists what was mutated
  before the error. The last part fails: \<open>save_graph\<close> follows \<open>process_abstract\<close>
  inside the \<open>try\<close>, so the handler is reached without a save. After a batch of the
  one abstract 200, whose second relation raises, the memory holds two nodes and an
  edge and the persisted document is still empty.
\<close>

theorem failed_abstract_not_persisted:
  "fst (process_abstract exact_mean example_model ''t1'' abstract_200 empty_kg)
     = Inl (TypeError ''string indices must be integers'')
   \<and> main_loop exact_mean example_model ''t1'' [abstract_200]
        \<lparr>updater = empty_kg, saved = ([], [])\<rparr>
     = \<lparr>updater = kg_200, saved = ([], [])\<rparr>
   \<and> save_graph kg_200 \<noteq> ([], [])"
  by (simp add: main_step_def run_200 save_graph_def kg_200_def)

text \<open>
  C6, amended. Let the extraction of an abstract yield relations of which a first part
  is merged without error, taking the graph in memory to \<open>st1\<close>, and of which the
  next relation raises, leaving \<open>st2\<close>. Then

  \<^item> \<open>process_abstract\<close> raises that exception and the memory is left at \<open>st2\<close>,
    which is the state in which the merge of the failing relation's source entity
    raised or, if that merge went through, the state in which the merge of its target
    entity raised: nothing is rolled back, and nothing that the graph held before, or
    that the merged relations had added, is missing from \<open>st2\<close>;
  \<^item> the persisted document is not written for this abstract, and the loop goes on
    with the remaining abstracts from \<open>st2\<close>;
  \<^item> when the next abstract is processed without error, ending in \<open>st3\<close>, the save
    that follows writes the nodes and edges of \<open>st3\<close>, and nothing of \<open>st2\<close> is
    missing from them.
\<close>

theorem failed_abstract_isolated:
  assumes "extraction model info = Inr (merged @ r # rest)"
    and "process_relations np_mean model now info merged [] (updater rt) = (Inr us, st1)"
    and "process_relation np_mean model now info r st1 = (Inl e, st2)"
  shows "process_abstract np_mean model now info (updater rt) = (Inl e, st2)
         \<and> st2 = (case merge_or_create model now (source_entity r) st1 of
                    (Inl e1, sa) \<Rightarrow> sa
                  | (Inr src, sa) \<Rightarrow> snd (merge_or_create model now (target_entity r) sa))
         \<and> grows (updater rt) st1 \<and> grows st1 st2
         \<and> main_loop np_mean model now (info # data) rt
           = main_loop np_mean model now data \<lparr>updater = st2, saved = saved rt\<rparr>
         \<and> (\<forall>info2 us2 st3.
               process_abstract np_mean model now info2 st2 = (Inr us2, st3)
               \<longrightarrow> main_loop np_mean model now [info, info2] rt
                     = \<lparr>updater = st3, saved = (nodes st3, edges st3)\<rparr>
                   \<and> grows st2 st3)"
proof -
  from process_relations_append_fail [OF assms(2,3)] assms(1)
  have pa: "process_abstract np_mean model now info (updater rt) = (Inl e, st2)"
    by (simp add: process_abstract_def)
  from process_relations_grows [of "updater rt" np_mean model now info merged "[]"] assms(2)
  have g1: "grows (updater rt) st1" by simp
  from process_relation_grows [of st1 np_mean model now info r] assms(3)
  have g2: "grows st1 st2" by simp
  from assms(3)
  have left: "st2 = (case merge_or_create model now (source_entity r) st1 of
                       (Inl e1, sa) \<Rightarrow> sa
                     | (Inr src, sa) \<Rightarrow> snd (merge_or_create model now (target_entity r) sa))"
    by (auto simp: process_relation_def split: prod.splits sum.splits)
  have step: "main_step np_mean model now info rt = \<lparr>updater = st2, saved = saved rt\<rparr>"
    using pa by (cases rt) (simp add: main_step_def)
  have next_ok: "main_loop np_mean model now [info, info2] rt
                   = \<lparr>updater = st3, saved = (nodes st3, edges st3)\<rparr> \<and> grows st2 st3"
    if "process_abstract np_mean model now info2 st2 = (Inr us2, st3)" for info2 us2 st3
  proof -
    from process_abstract_grows [of st2 np_mean model now info2] that
    have "grows st2 st3" by simp
    with that step show ?thesis by (simp add: main_step_def save_graph_def)
  qed
  from pa left g1 g2 step next_ok show ?thesis by simp
qed

theorem failed_abstract_isolated_witness:
  "extraction example_model abstract_200 = Inr ([rel_treat] @ rel_variant # [])
   \<and> process_relations exact_mean example_model ''t1'' abstract_200 [rel_treat] []
        (updater \<lparr>updater = empty_kg, saved = ([], [])\<rparr>)
     = (Inr [\<lparr>edge_id = ''node_0_node_1_TREAT'', source_id = ''node_0'',
              target_id = ''node_1'', action = ''updated''\<rparr>], kg_200)
   \<and> process_relation exact_mean example_model ''t1'' abstract_200 rel_variant kg_200
     = (Inl (TypeError ''string indices must be integers''), kg_200)
   \<and> process_abstract exact_mean example_model ''t1'' abstract_200
        (updater \<lparr>updater = empty_kg, saved = ([], [])\<rparr>)
     = (Inl (TypeError ''string indices must be integers''), kg_200)
   \<and> grows empty_kg kg_200
   \<and> main_loop exact_mean example_model ''t1'' [abstract_200, abstract_100]
        \<lparr>updater = empty_kg, saved = ([], [])\<rparr>
     = \<lparr>updater = snd (process_abstract exact_mean example_model ''t1'' abstract_100 kg_200),
        saved = save_graph (snd (process_abstract exact_mean example_model ''t1'' abstract_100
                                   kg_200))\<rparr>
   \<and> grows kg_200 (snd (process_abstract exact_mean example_model ''t1'' abstract_100 kg_200))
   \<and> map fst (fst (save_graph (snd (process_abstract exact_mean example_model ''t1''
                                       abstract_100 kg_200))))
     = [''node_0'', ''node_1'', ''node_2'', ''node_3'']
   \<and> map fst (snd (save_graph (snd (process_abstract exact_mean example_model ''t1''
                                       abstract_100 kg_200))))
     = [''node_0_node_1_TREAT'', ''node_2_node_3_ASSOCIATE'']"
proof -
  let ?rt = "\<lparr>updater = empty_kg, saved = ([], [])\<rparr>"
  let ?st = "snd (process_abstract exact_mean example_model ''t1'' abstract_100 kg_200)"
  have h1: "extraction example_model abstract_200 = Inr ([rel_treat] @ rel_variant # [])"
    by (simp add: example_model_def abstract_200_def)
  have h2: "process_relations exact_mean example_model ''t1'' abstract_200 [rel_treat] []
              (updater ?rt)
            = (Inr [\<lparr>edge_id = ''node_0_node_1_TREAT'', source_id = ''node_0'',
                     target_id = ''node_1'', action = ''updated''\<rparr>], kg_200)"
    by (simp add: model_defs example_defs lower_vals ratio_vals str_nat_vals)
  have h3: "process_relation exact_mean example_model ''t1'' abstract_200 rel_variant kg_200
            = (Inl (TypeError ''string indices must be integers''), kg_200)"
    by (simp add: model_defs example_defs lower_vals ratio_vals str_nat_vals)
  have ok: "process_abstract exact_mean example_model ''t1'' abstract_100 kg_200
            = (Inr [\<lparr>edge_id = ''node_2_node_3_ASSOCIATE'', source_id = ''node_2'',
                     target_id = ''node_3'', action = ''updated''\<rparr>], ?st)"
    using run_200_then_100 by (simp add: prod_eq_iff)
  note inst = failed_abstract_isolated [OF h1 h2 h3, of "[]"]
  from inst have pa: "process_abstract exact_mean example_model ''t1'' abstract_200 (updater ?rt)
            = (Inl (TypeError ''string indices must be integers''), kg_200)"
    by blast
  from inst have "grows (updater ?rt) kg_200" by blast
  then have g: "grows empty_kg kg_200" by simp
  from inst ok
  have both: "main_loop exact_mean example_model ''t1'' [abstract_200, abstract_100] ?rt
              = \<lparr>updater = ?st, saved = (nodes ?st, edges ?st)\<rparr> \<and> grows kg_200 ?st"
    by blast
  then have loop: "main_loop exact_mean example_model ''t1'' [abstract_200, abstract_100] ?rt
              = \<lparr>updater = ?st, saved = save_graph ?st\<rparr>"
    and g3: "grows kg_200 ?st"
    by (simp_all add: save_graph_def)
  have n: "map fst (fst (save_graph ?st)) = [''node_0'', ''node_1'', ''node_2'', ''node_3'']"
    by (simp add: save_graph_def model_defs example_defs lower_vals ratio_vals str_nat_vals)
  have ed: "map fst (snd (save_graph ?st))
            = [''node_0_node_1_TREAT'', ''node_2_node_3_ASSOCIATE'']"
    by (simp add: save_graph_def model_defs example_defs lower_vals ratio_vals str_nat_vals)
  from h1 h2 h3 pa g loop g3 n ed show ?thesis by blast
qed

text \<open>
  C7. The claim: an invalid extraction is repaired at most three times, each repaired
  result is validated again, and exhausting the attempts raises a \<open>ValueError\<close> that
  names the invalid part. The loop does stop after three repairs, but the result of
  the third repair is never validated, and the \<open>raise\<close> that follows builds its
  message with \<open>len(attempts)\<close> on an integer: whenever the loop ends with three
  repairs made, a \<open>TypeError\<close> is raised instead, also when the third repair had
  returned a valid extraction.
\<close>

theorem exhausted_repairs_raise_type_error:
  assumes "validation_loop v 0 x False False = Inr (3, x', ev, rv)"
  shows "validate_extraction v x = Inl (TypeError ''object of type int has no len()'')"
proof -
  from validation_loop_exhausted [OF assms] have "\<not> (ev \<and> rv)" by simp
  with assms show ?thesis
    by (auto simp: validate_extraction_def raise_validation_failed_def len_of_int_def)
qed

theorem exhausted_repairs_raise_type_error_witness:
  "validation_loop third_repair_valid 0 bad_extraction False False
     = Inr (3, \<lparr>entities = [True], relations = [True]\<rparr>, False, True)
   \<and> list_all (validate_entity third_repair_valid) [True]
   \<and> list_all (validate_relation third_repair_valid) [True]
   \<and> validate_extraction third_repair_valid bad_extraction
     = Inl (TypeError ''object of type int has no len()'')
   \<and> class_name (TypeError ''object of type int has no len()'') \<noteq> ''ValueError''"
  using exhausted_repairs_raise_type_error [OF loop_third_repair_valid]
    loop_third_repair_valid
  by (simp add: third_repair_valid_def)

text \<open>
  C8. The claim: merging into an unknown node id fails with \<open>NotFoundError\<close>, and
  merging into a known id does not raise. The program has no such exception: the
  lookup of an unknown id raises Python's \<open>KeyError\<close>. And a known id can raise: a
  node created from an entity without external ids stores \<open>None\<close> there, and a later
  merge of an entity with external ids calls \<open>.update\<close> on it.
\<close>

theorem update_node_unknown_id_key_error:
  "update_node ''t1'' ''node_7'' gene_a empty_kg = (Inl (KeyError ''node_7''), empty_kg)
   \<and> class_name (KeyError ''node_7'') \<noteq> ''NotFoundError''
   \<and> map_of (nodes kg_100) ''node_0'' = Some (node_of gene_a ''t1'')
   \<and> fst (update_node ''t2'' ''node_0'' gene_a_ids kg_100) = Inl (AttributeError ''update'')"
  by (simp add: update_node_def update_description_def Let_def example_defs gene_a_ids_def)

text \<open>
  C8, amended. Merging into a node id that is not in the node map raises
  \<open>KeyError\<close> and changes nothing; merging into an id that is in the map does not
  raise when the stored external ids are a dictionary or the incoming entity brings
  no external ids.
\<close>

theorem update_node_raises:
  "(map_of (nodes st) node_id = None
      \<longrightarrow> update_node now node_id e st = (Inl (KeyError node_id), st))
   \<and> (\<forall>nd. map_of (nodes st) node_id = Some nd
           \<and> (external_ids nd \<noteq> None \<or> eexternal_ids e = None \<or> eexternal_ids e = Some [])
        \<longrightarrow> fst (update_node now node_id e st) = Inr ())"
  by (auto simp: update_node_def Let_def update_description_def split: option.splits)

theorem update_node_raises_witness:
  "map_of (nodes kg_100) ''node_7'' = None
   \<and> update_node ''t2'' ''node_7'' gene_a kg_100 = (Inl (KeyError ''node_7''), kg_100)
   \<and> map_of (nodes kg_100) ''node_0'' = Some (node_of gene_a ''t1'')
   \<and> eexternal_ids gene_a_long = None
   \<and> fst (update_node ''t2'' ''node_0'' gene_a_long kg_100) = Inr ()"
proof -
  have a: "map_of (nodes kg_100) ''node_7'' = None"
    and b: "map_of (nodes kg_100) ''node_0'' = Some (node_of gene_a ''t1'')"
    and c: "eexternal_ids gene_a_long = None"
    by (simp_all add: kg_100_def gene_a_long_def)
  from update_node_raises [of kg_100 "''node_7''" "''t2''" gene_a] a
  have d: "update_node ''t2'' ''node_7'' gene_a kg_100 = (Inl (KeyError ''node_7''), kg_100)"
    by blast
  from update_node_raises [of kg_100 "''node_0''" "''t2''" gene_a_long] b c
  have "fst (update_node ''t2'' ''node_0'' gene_a_long kg_100) = Inr ()"
    by blast
  with a b c d show ?thesis by blast
qed

text \<open>
  C9. For a node of the type of the incoming entity, the node id is among the fuzzy
  candidates exactly when one of its known names (the lowered primary and alternative
  names) has a ratio of at least 0.5 to the lowered incoming name, and no id occurs
  twice in the candidate list. (The node map is a dictionary: its keys are distinct.)
  A ratio of exactly 0.5 makes a candidate, a smaller one does not.
\<close>

theorem fuzzy_candidate_threshold:
  assumes "distinct (map fst ns)" "(node_id, nd) \<in> set ns" "entity_type nd = etype e"
  shows "(node_id \<in> set (candidate_entities (1 / 2) e ns)
          \<longleftrightarrow> (\<exists>known \<in> set (known_names nd). ratio (lower (name e)) known \<ge> 1 / 2))
         \<and> distinct (candidate_entities (1 / 2) e ns)"
  using candidate_entities_iff [OF assms(1,2)] candidate_entities_distinct [OF assms(1)] assms(3)
  by (simp add: is_candidate_def list_ex_iff)

theorem fuzzy_candidate_threshold_witness:
  "distinct (map fst [(''node_0'', node_ac), (''node_1'', node_axyz)])
   \<and> entity_type node_ac = etype entity_ab \<and> entity_type node_axyz = etype entity_ab
   \<and> known_names node_ac = [''ac'', ''wxyz'', ''ab2'']
   \<and> ratio (lower (name entity_ab)) ''ac'' = 1 / 2
   \<and> ''node_0'' \<in> set (candidate_entities (1 / 2) entity_ab
                         [(''node_0'', node_ac), (''node_1'', node_axyz)])
   \<and> known_names node_axyz = [''axyz'']
   \<and> ratio (lower (name entity_ab)) ''axyz'' = 1 / 3
   \<and> ''node_1'' \<notin> set (candidate_entities (1 / 2) entity_ab
                         [(''node_0'', node_ac), (''node_1'', node_axyz)])
   \<and> distinct (candidate_entities (1 / 2) entity_ab
                 [(''node_0'', node_ac), (''node_1'', node_axyz)])"
proof -
  let ?ns = "[(''node_0'', node_ac), (''node_1'', node_axyz)]"
  have d: "distinct (map fst ?ns)" by simp
  have m0: "(''node_0'', node_ac) \<in> set ?ns" and m1: "(''node_1'', node_axyz) \<in> set ?ns"
    by simp_all
  have t0: "entity_type node_ac = etype entity_ab"
    and t1: "entity_type node_axyz = etype entity_ab"
    by (simp_all add: node_ac_def node_axyz_def entity_ab_def)
  have k0: "known_names node_ac = [''ac'', ''wxyz'', ''ab2'']"
    and k1: "known_names node_axyz = [''axyz'']"
    by (simp_all add: known_names_def node_ac_def node_axyz_def lower_vals)
  have r0: "ratio (lower (name entity_ab)) ''ac'' = 1 / 2"
    and r1: "ratio (lower (name entity_ab)) ''axyz'' = 1 / 3"
    by (simp_all add: entity_ab_def lower_vals ratio_vals)
  from fuzzy_candidate_threshold [OF d m0 t0] k0 r0
  have c0: "''node_0'' \<in> set (candidate_entities (1 / 2) entity_ab ?ns)"
    and dc: "distinct (candidate_entities (1 / 2) entity_ab ?ns)"
    by simp_all
  from fuzzy_candidate_threshold [OF d m1 t1] k1 r1
  have c1: "''node_1'' \<notin> set (candidate_entities (1 / 2) entity_ab ?ns)"
    by simp
  from d t0 t1 k0 k1 r0 r1 c0 c1 dc show ?thesis by blast
qed

text \<open>
  C10. Merging into an existing node leaves it with the incoming description when
  that is strictly longer than the stored one (an absent description counting as
  empty, so that any non-empty description replaces an empty one), and with the stored
  description otherwise: an incoming description of smaller or equal length changes
  nothing.
\<close>

theorem merge_description_monotone:
  assumes "map_of (nodes st) node_id = Some nd"
  shows "map_option description (map_of (nodes (snd (update_node now node_id e st))) node_id)
         = Some (if desc_len (edescription e) > desc_len (description nd)
                 then edescription e else description nd)"
  using assms
  by (simp add: update_node_def Let_def update_conv' description_update_description)

theorem merge_description_monotone_witness:
  "map_of (nodes kg_100) ''node_0'' = Some (node_of gene_a ''t1'')
   \<and> description (node_of gene_a ''t1'') = Some ''a gene''
   \<and> map_option description
        (map_of (nodes (snd (update_node ''t2'' ''node_0'' gene_a_short kg_100))) ''node_0'')
     = Some (Some ''a gene'')
   \<and> map_option description
        (map_of (nodes (snd (update_node ''t2'' ''node_0'' gene_a_long kg_100))) ''node_0'')
     = Some (Some ''a human gene'')"
proof -
  have h: "map_of (nodes kg_100) ''node_0'' = Some (node_of gene_a ''t1'')"
    by (simp add: kg_100_def)
  have d: "description (node_of gene_a ''t1'') = Some ''a gene''"
    by (simp add: node_of_def gene_a_def)
  from merge_description_monotone [OF h, of "''t2''" gene_a_short] d
  have a: "map_option description
        (map_of (nodes (snd (update_node ''t2'' ''node_0'' gene_a_short kg_100))) ''node_0'')
     = Some (Some ''a gene'')"
    by (simp add: desc_len_def gene_a_short_def)
  from merge_description_monotone [OF h, of "''t2''" gene_a_long] d
  have b: "map_option description
        (map_of (nodes (snd (update_node ''t2'' ''node_0'' gene_a_long kg_100))) ''node_0'')
     = Some (Some ''a human gene'')"
    by (simp add: desc_len_def gene_a_long_def)
  from h d a b show ?thesis by blast
qed

end
